theory Spec2Isabelle
  imports Complex_Main "HOL-Library.Sublist"
begin

section \<open>JavaScript numbers\<close>

text \<open>
  A JavaScript number is a finite double, one of the two infinities, or NaN. A finite
  double is embedded as the real number it denotes, and the difference of two finite
  numbers is taken exactly (the rounding of a difference to the nearest double is not
  part of the model). The operations below are the ones \<^verbatim>\<open>snapSpoilerLevel\<close>
  uses: the comparison \<^verbatim>\<open><\<close> (false as soon as one side is NaN), \<^verbatim>\<open>Math.min\<close>,
  \<^verbatim>\<open>Math.max\<close> (NaN as soon as one argument is NaN), subtraction and \<^verbatim>\<open>Math.abs\<close>.
\<close>

datatype number = NaN | NegInf | Fin real | PosInf

fun num_less :: "number \<Rightarrow> number \<Rightarrow> bool" where
  "num_less NaN _ = False"
| "num_less _ NaN = False"
| "num_less _ NegInf = False"
| "num_less PosInf _ = False"
| "num_less NegInf _ = True"
| "num_less (Fin x) PosInf = True"
| "num_less (Fin x) (Fin y) = (x < y)"

fun Math_min :: "number \<Rightarrow> number \<Rightarrow> number" where
  "Math_min NaN _ = NaN"
| "Math_min _ NaN = NaN"
| "Math_min a b = (if num_less b a then b else a)"

fun Math_max :: "number \<Rightarrow> number \<Rightarrow> number" where
  "Math_max NaN _ = NaN"
| "Math_max _ NaN = NaN"
| "Math_max a b = (if num_less a b then b else a)"

fun num_minus :: "number \<Rightarrow> number \<Rightarrow> number" where
  "num_minus NaN _ = NaN"
| "num_minus _ NaN = NaN"
| "num_minus PosInf PosInf = NaN"
| "num_minus NegInf NegInf = NaN"
| "num_minus PosInf _ = PosInf"
| "num_minus NegInf _ = NegInf"
| "num_minus (Fin x) PosInf = NegInf"
| "num_minus (Fin x) NegInf = PosInf"
| "num_minus (Fin x) (Fin y) = Fin (x - y)"

fun Math_abs :: "number \<Rightarrow> number" where
  "Math_abs NaN = NaN"
| "Math_abs NegInf = PosInf"
| "Math_abs PosInf = PosInf"
| "Math_abs (Fin x) = Fin \<bar>x\<bar>"

section \<open>Spoiler snapping (page.tsx, lines 86 to 100)\<close>

definition SPOILER_SNAP_POINTS :: "number list" where
  "SPOILER_SNAP_POINTS = [Fin 0, Fin 33, Fin 66, Fin 100]"

text \<open>\<^verbatim>\<open>const clamped = Math.max(0, Math.min(100, v))\<close>\<close>

definition clamped :: "number \<Rightarrow> number" where
  "clamped v = Math_max (Fin 0) (Math_min (Fin 100) v)"

text \<open>
  One round of the \<^verbatim>\<open>for (const p of SPOILER_SNAP_POINTS)\<close> loop on the pair
  \<^verbatim>\<open>(best, bestDist)\<close>.
\<close>

definition snap_body :: "number \<Rightarrow> number \<times> number \<Rightarrow> number \<Rightarrow> number \<times> number" where
  "snap_body c acc p =
     (let d = Math_abs (num_minus c p)
      in if num_less d (snd acc) then (p, d) else acc)"

definition snapSpoilerLevel :: "number \<Rightarrow> number" where
  "snapSpoilerLevel v =
     fst (foldl (snap_body (clamped v)) (Fin 0, PosInf) SPOILER_SNAP_POINTS)"

section \<open>Strings\<close>

text \<open>
  A string is a list of characters. \<^verbatim>\<open>String.prototype.trim\<close> strips white space
  and line terminators from both ends; among the characters below 256 these are tab,
  line feed, vertical tab, form feed, carriage return, space and the no-break space.
\<close>

definition is_ws :: "char \<Rightarrow> bool" where
  "is_ws c = (of_char c \<in> {9, 10, 11, 12, 13, 32, 160 :: nat})"

definition trim :: "string \<Rightarrow> string" where
  "trim s = rev (dropWhile is_ws (rev (dropWhile is_ws s)))"

text \<open>
  \<^verbatim>\<open>a || b\<close> where \<^verbatim>\<open>a\<close> is a string or undefined: the empty string and undefined are
  falsy, every other string is truthy.
\<close>

definition or_else :: "string option \<Rightarrow> string \<Rightarrow> string" where
  "or_else a b = (case a of None \<Rightarrow> b | Some x \<Rightarrow> if x = [] then b else x)"

section \<open>Source records (page.tsx, lines 14 to 23 and 165 to 186)\<close>

text \<open>
  A \<^verbatim>\<open>RagSource\<close> is an object whose properties are all optional strings. It is kept
  as the list of its properties in insertion order, since \<^verbatim>\<open>JSON.stringify\<close> prints
  them in that order; \<^verbatim>\<open>s.url\<close> is the lookup of \<^verbatim>\<open>url\<close>, undefined when absent.
\<close>

type_synonym RagSource = "(string \<times> string) list"

definition get_prop :: "RagSource \<Rightarrow> string \<Rightarrow> string option" where
  "get_prop s k = map_of s k"

text \<open>
  \<^verbatim>\<open>JSON.stringify\<close> of a string: the double quote and the backslash are escaped, the
  control characters below 32 are written with their short escapes or as
  \<^verbatim>\<open>\u00XX\<close>; of an object: the properties, comma separated, between braces.
\<close>

definition hex_digit :: "nat \<Rightarrow> char" where
  "hex_digit n = ''0123456789abcdef'' ! (n mod 16)"

definition json_escape :: "char \<Rightarrow> string" where
  "json_escape c =
     (let n = (of_char c :: nat) in
      if n = 34 then [CHR 0x5C, CHR 0x22]
      else if n = 92 then [CHR 0x5C, CHR 0x5C]
      else if n = 8 then [CHR 0x5C, CHR ''b'']
      else if n = 12 then [CHR 0x5C, CHR ''f'']
      else if n = 10 then [CHR 0x5C, CHR ''n'']
      else if n = 13 then [CHR 0x5C, CHR ''r'']
      else if n = 9 then [CHR 0x5C, CHR ''t'']
      else if n < 32 then [CHR 0x5C, CHR ''u'', CHR ''0'', CHR ''0'', hex_digit (n div 16), hex_digit n]
      else [c])"

definition JSON_quote :: "string \<Rightarrow> string" where
  "JSON_quote s = CHR 0x22 # concat (map json_escape s) @ [CHR 0x22]"

fun join :: "string \<Rightarrow> string list \<Rightarrow> string" where
  "join sep [] = []"
| "join sep [x] = x"
| "join sep (x # y # ys) = x @ sep @ join sep (y # ys)"

definition JSON_stringify :: "RagSource \<Rightarrow> string" where
  "JSON_stringify s =
     ''{'' @ join '','' (map (\<lambda>(k, v). JSON_quote k @ '':'' @ JSON_quote v) s) @ ''}''"

text \<open>
  \<^verbatim>\<open>s.url?.trim() || s.title?.trim() || s.source?.trim() || s.chunk_id?.trim() ||
  JSON.stringify(s)\<close>
\<close>

definition sourceKey :: "RagSource \<Rightarrow> string" where
  "sourceKey s =
     or_else (map_option trim (get_prop s ''url''))
       (or_else (map_option trim (get_prop s ''title''))
         (or_else (map_option trim (get_prop s ''source''))
           (or_else (map_option trim (get_prop s ''chunk_id''))
             (JSON_stringify s))))"

definition sourceLabel :: "RagSource \<Rightarrow> string" where
  "sourceLabel s =
     or_else (map_option trim (get_prop s ''title''))
       (or_else (map_option trim (get_prop s ''source''))
         (or_else (map_option trim (get_prop s ''url''))
           ''Unbekannte Quelle''))"

text \<open>
  A JavaScript \<^verbatim>\<open>Map\<close> keeps its entries in insertion order: here the list of its
  entries. \<^verbatim>\<open>set\<close> on a key already present replaces the value in place, on a new
  key it appends the entry; \<^verbatim>\<open>values()\<close> lists the values in entry order.
\<close>

definition Map_has :: "('k \<times> 'v) list \<Rightarrow> 'k \<Rightarrow> bool" where
  "Map_has m k = (k \<in> set (map fst m))"

definition Map_set :: "('k \<times> 'v) list \<Rightarrow> 'k \<Rightarrow> 'v \<Rightarrow> ('k \<times> 'v) list" where
  "Map_set m k v =
     (if Map_has m k then map (\<lambda>(k', v'). if k' = k then (k', v) else (k', v')) m
      else m @ [(k, v)])"

definition Map_values :: "('k \<times> 'v) list \<Rightarrow> 'v list" where
  "Map_values m = map snd m"

text \<open>The body of \<^verbatim>\<open>for (const s of sources)\<close> in \<^verbatim>\<open>dedupeSources\<close>.\<close>

definition dedupe_body :: "(string \<times> RagSource) list \<Rightarrow> RagSource \<Rightarrow> (string \<times> RagSource) list" where
  "dedupe_body m s = (let key = sourceKey s in if \<not> Map_has m key then Map_set m key s else m)"

definition dedupeSources :: "RagSource list \<Rightarrow> RagSource list" where
  "dedupeSources sources = Map_values (foldl dedupe_body [] sources)"

text \<open>
  The specification's wording of deduplication, to compare \<^verbatim>\<open>dedupeSources\<close> with:
  go through the records in input order, keep a record when its key has not been seen,
  drop it otherwise.
\<close>

fun keep_first :: "('a \<Rightarrow> 'k) \<Rightarrow> 'k list \<Rightarrow> 'a list \<Rightarrow> 'a list" where
  "keep_first key seen [] = []"
| "keep_first key seen (x # xs) =
     (if key x \<in> set seen then keep_first key seen xs
      else x # keep_first key (key x # seen) xs)"

section \<open>Values of unknown type\<close>

text \<open>
  Where the code receives a value of type \<^verbatim>\<open>unknown\<close> it inspects it with
  \<^verbatim>\<open>typeof\<close> and by truthiness only. \<^verbatim>\<open>JObject\<close> stands for any object or array
  whose contents are not read.
\<close>

datatype jsval = JUndefined | JNull | JBool bool | JNum number | JStr string | JObject

fun truthy :: "jsval \<Rightarrow> bool" where
  "truthy JUndefined = False"
| "truthy JNull = False"
| "truthy (JBool b) = b"
| "truthy (JNum n) = (n \<noteq> NaN \<and> n \<noteq> Fin 0)"
| "truthy (JStr s) = (s \<noteq> [])"
| "truthy JObject = True"

fun typeof :: "jsval \<Rightarrow> string" where
  "typeof JUndefined = ''undefined''"
| "typeof JNull = ''object''"
| "typeof (JBool b) = ''boolean''"
| "typeof (JNum n) = ''number''"
| "typeof (JStr s) = ''string''"
| "typeof JObject = ''object''"

section \<open>The answer gateway (api.ts)\<close>

subsection \<open>The well-formed-id check (lines 66 to 70)\<close>

text \<open>
  The regular expression
  \<^verbatim>\<open>/^[0-9a-f]{8}-[0-9a-f]{4}-[1-5][0-9a-f]{3}-[89ab][0-9a-f]{3}-[0-9a-f]{12}$/i\<close>
  as the list of its 36 character classes; with the flag \<^verbatim>\<open>i\<close> the letters match in
  both cases.
\<close>

definition is_hex :: "char \<Rightarrow> bool" where
  "is_hex c = (c \<in> set ''0123456789abcdefABCDEF'')"

definition is_dash :: "char \<Rightarrow> bool" where
  "is_dash c = (c = CHR ''-'')"

definition is_version :: "char \<Rightarrow> bool" where
  "is_version c = (c \<in> set ''12345'')"

definition is_variant :: "char \<Rightarrow> bool" where
  "is_variant c = (c \<in> set ''89abAB'')"

definition uuid_pattern :: "(char \<Rightarrow> bool) list" where
  "uuid_pattern =
     replicate 8 is_hex @ [is_dash] @
     replicate 4 is_hex @ [is_dash] @
     [is_version] @ replicate 3 is_hex @ [is_dash] @
     [is_variant] @ replicate 3 is_hex @ [is_dash] @
     replicate 12 is_hex"

definition matches_uuid :: "string \<Rightarrow> bool" where
  "matches_uuid s = list_all2 (\<lambda>p c. p c) uuid_pattern s"

fun isValidUuid :: "jsval \<Rightarrow> bool" where
  "isValidUuid (JStr s) = matches_uuid s"
| "isValidUuid _ = False"

subsection \<open>Request, response and error shapes\<close>

text \<open>\<^verbatim>\<open>RagAnswerRequest\<close>; \<^verbatim>\<open>docFilter\<close> is undefined, null or a string.\<close>

record RagAnswerRequest =
  req_sessionId :: string
  req_threadId :: "string option"
  req_query :: string
  req_spoilerLevel :: number
  matchCount :: "number option"
  docFilter :: "string option option"
  developerMode :: "bool option"

text \<open>
  \<^verbatim>\<open>RagAnswerResult\<close>, the object the backend answers with. The two identifiers are
  checked at run time, so they are values of unknown type (\<^verbatim>\<open>JUndefined\<close> when the
  property is missing); the other properties are read at their declared types
  (\<^verbatim>\<open>interaction_id\<close> null or missing is \<^verbatim>\<open>None\<close>). The opaque \<^verbatim>\<open>meta\<close> is never
  read and left out.
\<close>

record RagAnswerResult =
  ok :: bool
  session_id :: jsval
  thread_id :: jsval
  answer :: "string option"
  sources_r :: "RagSource list option"
  interaction_id_r :: "string option"

text \<open>
  What \<^verbatim>\<open>supabase.functions.invoke\<close> hands back as \<^verbatim>\<open>data\<close>: an object of the shape
  above, or any other value (for which both identifiers read as undefined).
\<close>

datatype payload = Value jsval | Object RagAnswerResult

text \<open>
  The \<^verbatim>\<open>error\<close> of \<^verbatim>\<open>supabase.functions.invoke\<close>, when there is one: an object, of
  which the normalizer reads whether it is an \<^verbatim>\<open>Error\<close> instance, and the properties
  \<^verbatim>\<open>name\<close>, \<^verbatim>\<open>message\<close>, \<^verbatim>\<open>status\<close> and \<^verbatim>\<open>context\<close> (\<^verbatim>\<open>e_ctx\<close> is \<^verbatim>\<open>None\<close> when
  \<^verbatim>\<open>context\<close> is not a non-null object; \<^verbatim>\<open>c_body\<close> is \<^verbatim>\<open>None\<close> when the context
  has no property \<^verbatim>\<open>body\<close>).
\<close>

record fn_ctx =
  c_status :: jsval
  c_statusText :: jsval
  c_body :: "jsval option"

record fn_error =
  is_Error :: bool
  e_name :: jsval
  e_message :: jsval
  e_status :: jsval
  e_ctx :: "fn_ctx option"

datatype bodyval = BodyPayload payload | BodyError fn_error | BodyValue jsval

record RagApiError =
  name :: string
  message :: string
  status :: "number option"
  statusText :: "string option"
  body :: "bodyval option"

text \<open>
  What a \<^verbatim>\<open>throw\<close> can carry to the handler of \<^verbatim>\<open>onAsk\<close>: an error object of the
  gateway, the exception \<^verbatim>\<open>localStorage.setItem\<close> raises when the browser refuses
  the write (quota exceeded, private mode), or some other value.
\<close>

datatype thrown = ApiError RagApiError | QuotaExceededError | Other jsval

record invoke_result =
  data :: payload
  error :: "fn_error option"

subsection \<open>normalizeSupabaseFunctionError (lines 32 to 64)\<close>

definition str_or :: "jsval \<Rightarrow> string \<Rightarrow> string" where
  "str_or v d = (case v of JStr s \<Rightarrow> if s = [] then d else s | _ \<Rightarrow> d)"

definition normalizeSupabaseFunctionError :: "fn_error \<Rightarrow> RagApiError" where
  "normalizeSupabaseFunctionError e =
     (let base0 = \<lparr>name = ''RagApiError'', message = ''Request failed'', status = None,
                   statusText = None, body = None\<rparr>;
          base1 = (if is_Error e
                   then base0\<lparr>name := str_or (e_name e) (name base0),
                              message := str_or (e_message e) (message base0)\<rparr>
                   else base0);
          base2 = (case e_name e of JStr s \<Rightarrow> base1\<lparr>name := s\<rparr> | _ \<Rightarrow> base1);
          base3 = (case e_message e of JStr s \<Rightarrow> base2\<lparr>message := s\<rparr> | _ \<Rightarrow> base2);
          base4 = (case e_status e of JNum n \<Rightarrow> base3\<lparr>status := Some n\<rparr> | _ \<Rightarrow> base3);
          base5 = (case e_ctx e of
                     None \<Rightarrow> base4
                   | Some c \<Rightarrow>
                      (let b1 = (case c_status c of JNum n \<Rightarrow> base4\<lparr>status := Some n\<rparr> | _ \<Rightarrow> base4);
                           b2 = (case c_statusText c of JStr s \<Rightarrow> b1\<lparr>statusText := Some s\<rparr> | _ \<Rightarrow> b1)
                       in (case c_body c of
                             None \<Rightarrow> b2
                           | Some v \<Rightarrow> if v = JUndefined then b2 else b2\<lparr>body := Some (BodyValue v)\<rparr>)))
      in if body base5 = None then base5\<lparr>body := Some (BodyError e)\<rparr> else base5)"

subsection \<open>ragAnswer (lines 79 to 128)\<close>

text \<open>
  The request body: an object, as the list of its properties in the order the code adds
  them.
\<close>

type_synonym request_body = "(string \<times> jsval) list"

definition request_body :: "RagAnswerRequest \<Rightarrow> request_body" where
  "request_body req =
     [(''query'', JStr (req_query req)),
      (''session_id'', JStr (req_sessionId req)),
      (''spoilerLevel'', JNum (req_spoilerLevel req))]
     @ (case req_threadId req of
          None \<Rightarrow> []
        | Some t \<Rightarrow> if t \<noteq> [] \<and> isValidUuid (JStr t) then [(''thread_id'', JStr t)] else [])
     @ (case matchCount req of None \<Rightarrow> [] | Some n \<Rightarrow> [(''match_count'', JNum n)])
     @ (case docFilter req of
          None \<Rightarrow> []
        | Some None \<Rightarrow> [(''doc_filter'', JNull)]
        | Some (Some f) \<Rightarrow> [(''doc_filter'', JStr f)])
     @ (case developerMode req of None \<Rightarrow> [] | Some b \<Rightarrow> [(''developer_mode'', JBool b)])"

definition has_field :: "request_body \<Rightarrow> string \<Rightarrow> bool" where
  "has_field b k = (map_of b k \<noteq> None)"

definition invalid_payload :: "payload \<Rightarrow> RagApiError" where
  "invalid_payload d =
     \<lparr>name = ''RagApiError'', message = ''Invalid response payload'',
      status = Some (Fin 500), statusText = None, body = Some (BodyPayload d)\<rparr>"

definition missing_ids :: "payload \<Rightarrow> RagApiError" where
  "missing_ids d =
     \<lparr>name = ''RagApiError'', message = ''Backend response missing session_id/thread_id'',
      status = Some (Fin 500), statusText = None, body = Some (BodyPayload d)\<rparr>"

text \<open>The part of \<^verbatim>\<open>ragAnswer\<close> after the \<^verbatim>\<open>await\<close>: lines 102 to 127.\<close>

definition ragAnswer_check :: "invoke_result \<Rightarrow> thrown + RagAnswerResult" where
  "ragAnswer_check res =
     (case error res of
        Some e \<Rightarrow> Inl (ApiError (normalizeSupabaseFunctionError e))
      | None \<Rightarrow>
         (case data res of
            Value v \<Rightarrow>
              if \<not> truthy v \<or> typeof v \<noteq> ''object'' then Inl (ApiError (invalid_payload (Value v)))
              else Inl (ApiError (missing_ids (Value v)))
          | Object d \<Rightarrow>
              if \<not> isValidUuid (session_id d) \<or> \<not> isValidUuid (thread_id d)
              then Inl (ApiError (missing_ids (Object d)))
              else Inr d))"

text \<open>
  \<^verbatim>\<open>ragAnswer\<close>, with \<^verbatim>\<open>supabase.functions.invoke("rag-answer-dev", { body })\<close> as
  the parameter \<^verbatim>\<open>invoke\<close>.
\<close>

definition ragAnswer :: "(request_body \<Rightarrow> invoke_result) \<Rightarrow> RagAnswerRequest \<Rightarrow> thrown + RagAnswerResult" where
  "ragAnswer invoke req = ragAnswer_check (invoke (request_body req))"

section \<open>Chat messages and local storage (page.tsx, lines 35 to 54 and 121 to 163)\<close>

datatype ChatRole = User | Assistant

record ChatMessage =
  msg_id :: string
  role :: ChatRole
  content :: string
  createdAt :: int
  sources :: "RagSource list option"
  interaction_id :: "string option"

definition LS_SESSION :: string where "LS_SESSION = ''survivalfox_session_id''"
definition LS_THREAD :: string where "LS_THREAD = ''survivalfox_thread_id''"
definition LS_MESSAGES :: string where "LS_MESSAGES = ''survivalfox_messages_v1''"
definition LS_GAME_ID :: string where "LS_GAME_ID = ''survivalfox_game_id''"

text \<open>
  \<^verbatim>\<open>localStorage\<close> holds one item or none under each of the four keys. The item under
  \<^verbatim>\<open>LS_MESSAGES\<close> is either the text \<^verbatim>\<open>JSON.stringify\<close> made of a message list,
  which \<^verbatim>\<open>JSON.parse\<close> reads back as that list, or some other text, which is empty or
  does not parse. \<^verbatim>\<open>getItem\<close> and \<^verbatim>\<open>removeItem\<close> always succeed. \<^verbatim>\<open>setItem\<close> can
  be refused by the browser (quota, private mode), and then throws: \<^verbatim>\<open>accepts\<close> says
  which writes the browser takes.
\<close>

datatype stored_log = Encoded "ChatMessage list" | Unparsable string

datatype lsval = LsString string | LsLog "ChatMessage list"

record localStorage =
  session_item :: "string option"
  thread_item :: "string option"
  messages_item :: "stored_log option"
  game_item :: "string option"
  accepts :: "string \<Rightarrow> lsval \<Rightarrow> bool"

definition setItem_session :: "string \<Rightarrow> localStorage \<Rightarrow> thrown + localStorage" where
  "setItem_session v ls =
     (if accepts ls LS_SESSION (LsString v) then Inr (ls\<lparr>session_item := Some v\<rparr>)
      else Inl QuotaExceededError)"

definition setItem_thread :: "string \<Rightarrow> localStorage \<Rightarrow> thrown + localStorage" where
  "setItem_thread v ls =
     (if accepts ls LS_THREAD (LsString v) then Inr (ls\<lparr>thread_item := Some v\<rparr>)
      else Inl QuotaExceededError)"

definition setItem_messages :: "ChatMessage list \<Rightarrow> localStorage \<Rightarrow> thrown + localStorage" where
  "setItem_messages ms ls =
     (if accepts ls LS_MESSAGES (LsLog ms) then Inr (ls\<lparr>messages_item := Some (Encoded ms)\<rparr>)
      else Inl QuotaExceededError)"

definition setItem_game :: "string \<Rightarrow> localStorage \<Rightarrow> thrown + localStorage" where
  "setItem_game v ls =
     (if accepts ls LS_GAME_ID (LsString v) then Inr (ls\<lparr>game_item := Some v\<rparr>)
      else Inl QuotaExceededError)"

text \<open>
  \<^verbatim>\<open>getOrCreateSessionId\<close>; the argument \<^verbatim>\<open>uuid\<close> is what \<^verbatim>\<open>crypto.randomUUID()\<close>
  returns when it is called. An empty item is falsy, like a missing one.
\<close>

definition getOrCreateSessionId :: "string \<Rightarrow> localStorage \<Rightarrow> thrown + (string \<times> localStorage)" where
  "getOrCreateSessionId uuid ls =
     (case session_item ls of
        Some existing \<Rightarrow>
          if existing \<noteq> [] then Inr (existing, ls)
          else map_sum (\<lambda>e. e) (\<lambda>ls'. (uuid, ls')) (setItem_session uuid ls)
      | None \<Rightarrow> map_sum (\<lambda>e. e) (\<lambda>ls'. (uuid, ls')) (setItem_session uuid ls))"

definition loadThreadId :: "localStorage \<Rightarrow> string option" where
  "loadThreadId ls = thread_item ls"

definition saveThreadId :: "string option \<Rightarrow> localStorage \<Rightarrow> thrown + localStorage" where
  "saveThreadId threadId ls =
     (case threadId of
        None \<Rightarrow> Inr (ls\<lparr>thread_item := None\<rparr>)
      | Some t \<Rightarrow> if t = [] then Inr (ls\<lparr>thread_item := None\<rparr>) else setItem_thread t ls)"

definition loadMessages :: "localStorage \<Rightarrow> ChatMessage list" where
  "loadMessages ls =
     (case messages_item ls of
        None \<Rightarrow> []
      | Some (Encoded ms) \<Rightarrow> ms
      | Some (Unparsable s) \<Rightarrow> [])"

definition saveMessages :: "ChatMessage list \<Rightarrow> localStorage \<Rightarrow> localStorage" where
  "saveMessages ms ls = (case setItem_messages ms ls of Inl e \<Rightarrow> ls | Inr ls' \<Rightarrow> ls')"

definition loadGameId :: "localStorage \<Rightarrow> thrown + (string \<times> localStorage)" where
  "loadGameId ls =
     (case game_item ls of
        Some existing \<Rightarrow>
          if existing \<noteq> [] then Inr (existing, ls)
          else map_sum (\<lambda>e. e) (\<lambda>ls'. (''valheim'', ls')) (setItem_game ''valheim'' ls)
      | None \<Rightarrow> map_sum (\<lambda>e. e) (\<lambda>ls'. (''valheim'', ls')) (setItem_game ''valheim'' ls))"

section \<open>The conversation controller (page.tsx, lines 275 to 389)\<close>

text \<open>The state variables of \<^verbatim>\<open>Home\<close>.\<close>

record state =
  sessionId :: string
  threadId :: "string option"
  gameId :: string
  spoilerLevel :: number
  query :: string
  loading :: bool
  err :: "thrown option"
  messages :: "ChatMessage list"
  sourcesForMessageId :: "string option"

definition initial_state :: state where
  "initial_state =
     \<lparr>sessionId = [], threadId = None, gameId = ''valheim'', spoilerLevel = Fin 33,
      query = [], loading = False, err = None, messages = [], sourcesForMessageId = None\<rparr>"

text \<open>
  The effect run once after the first render (lines 295 to 307). An exception in it is
  not caught by the component, which then does not come up.
\<close>

definition mount :: "string \<Rightarrow> localStorage \<Rightarrow> thrown + (state \<times> localStorage)" where
  "mount uuid ls =
     (case getOrCreateSessionId uuid ls of
        Inl e \<Rightarrow> Inl e
      | Inr (sid, ls1) \<Rightarrow>
         (case loadGameId ls1 of
            Inl e \<Rightarrow> Inl e
          | Inr (gid, ls2) \<Rightarrow>
              Inr (initial_state\<lparr>sessionId := sid, threadId := loadThreadId ls1,
                     messages := loadMessages ls1, gameId := gid\<rparr>, ls2)))"

text \<open>The two places that show sources: the detail view and the line under a message.\<close>

definition sources_or_empty :: "ChatMessage \<Rightarrow> RagSource list" where
  "sources_or_empty m = (case sources m of None \<Rightarrow> [] | Some ss \<Rightarrow> ss)"

definition activeSources :: "state \<Rightarrow> RagSource list" where
  "activeSources st =
     (case sourcesForMessageId st of
        None \<Rightarrow> []
      | Some mid \<Rightarrow>
          if mid = [] then []
          else take 8 (dedupeSources
                 (case find (\<lambda>m. msg_id m = mid) (messages st) of
                    None \<Rightarrow> []
                  | Some m \<Rightarrow> sources_or_empty m)))"

definition msgSources :: "ChatMessage \<Rightarrow> RagSource list" where
  "msgSources m = take 5 (dedupeSources (sources_or_empty m))"

subsection \<open>resetThread (lines 321 to 331)\<close>

definition resetThread :: "state \<Rightarrow> localStorage \<Rightarrow> state \<times> localStorage" where
  "resetThread st ls =
     (let st1 = st\<lparr>threadId := None\<rparr> in
      case saveThreadId None ls of
        Inl e \<Rightarrow> (st1, ls)
      | Inr ls1 \<Rightarrow>
          (st1\<lparr>messages := [], err := None, query := [], sourcesForMessageId := None\<rparr>,
           saveMessages [] ls1))"

subsection \<open>onAsk (lines 333 to 389)\<close>

text \<open>
  The handler of the \<^verbatim>\<open>catch\<close> clause: an object is shown as it is, any other
  value is wrapped.
\<close>

fun on_catch :: "thrown \<Rightarrow> thrown" where
  "on_catch (Other v) =
     (if typeof v = ''object'' \<and> v \<noteq> JNull then Other v
      else ApiError \<lparr>name = ''RagApiError'', message = ''Unbekannter Fehler'', status = None,
                     statusText = None, body = Some (BodyValue v)\<rparr>)"
| "on_catch e = e"

text \<open>
  \<^verbatim>\<open>onAsk\<close> runs in two steps. The first runs when the user submits, up to the
  \<^verbatim>\<open>await\<close>: it returns the new state, the new storage and the request handed to
  \<^verbatim>\<open>ragAnswer\<close>, or no request when the guard returns early. \<^verbatim>\<open>uuid\<close> and \<^verbatim>\<open>now\<close>
  are what \<^verbatim>\<open>crypto.randomUUID()\<close> and \<^verbatim>\<open>Date.now()\<close> return.
\<close>

definition onAsk_begin ::
    "string \<Rightarrow> int \<Rightarrow> state \<Rightarrow> localStorage \<Rightarrow> state \<times> localStorage \<times> RagAnswerRequest option" where
  "onAsk_begin uuid now st ls =
     (let q = trim (query st) in
      if q = [] \<or> sessionId st = [] \<or> loading st then (st, ls, None)
      else
        (let userMsg = \<lparr>msg_id = uuid, role = User, content = q, createdAt = now,
                         sources = None, interaction_id = None\<rparr>;
             next = messages st @ [userMsg]
         in (st\<lparr>loading := True, err := None, messages := next, query := []\<rparr>,
             saveMessages next ls,
             Some \<lparr>req_sessionId = sessionId st, req_threadId = threadId st, req_query = q,
                   req_spoilerLevel = spoilerLevel st, matchCount = None, docFilter = None,
                   developerMode = None\<rparr>)))"

text \<open>
  The second step runs when \<^verbatim>\<open>ragAnswer\<close> settles, with its outcome: the rest of the
  \<^verbatim>\<open>try\<close> block, the \<^verbatim>\<open>catch\<close> and the \<^verbatim>\<open>finally\<close>. The identifiers of an answer
  that passed the gateway are strings, which \<^verbatim>\<open>str_of\<close> reads.
\<close>

fun str_of :: "jsval \<Rightarrow> string" where
  "str_of (JStr s) = s"
| "str_of _ = []"

text \<open>\<^verbatim>\<open>data.sources ?? []\<close>\<close>

definition reply_sources :: "RagAnswerResult \<Rightarrow> RagSource list" where
  "reply_sources d = (case sources_r d of None \<Rightarrow> [] | Some ss \<Rightarrow> ss)"

definition assistantMsg :: "string \<Rightarrow> int \<Rightarrow> RagAnswerResult \<Rightarrow> ChatMessage" where
  "assistantMsg uuid now d =
     \<lparr>msg_id = uuid, role = Assistant,
      content = (case answer d of None \<Rightarrow> [] | Some a \<Rightarrow> a),
      createdAt = now,
      sources = Some (take 8 (dedupeSources (reply_sources d))),
      interaction_id = interaction_id_r d\<rparr>"

definition failed :: "thrown \<Rightarrow> state \<Rightarrow> state" where
  "failed e st = st\<lparr>err := Some (on_catch e), loading := False\<rparr>"

definition onAsk_settle ::
    "string \<Rightarrow> int \<Rightarrow> thrown + RagAnswerResult \<Rightarrow> state \<Rightarrow> localStorage \<Rightarrow> state \<times> localStorage" where
  "onAsk_settle uuid now outcome st ls =
     (case outcome of
        Inl e \<Rightarrow> (failed e st, ls)
      | Inr d \<Rightarrow>
         (let st1 = st\<lparr>sessionId := str_of (session_id d)\<rparr> in
          case setItem_session (str_of (session_id d)) ls of
            Inl e \<Rightarrow> (failed e st1, ls)
          | Inr ls1 \<Rightarrow>
             (let st2 = st1\<lparr>threadId := Some (str_of (thread_id d))\<rparr> in
              case saveThreadId (Some (str_of (thread_id d))) ls1 of
                Inl e \<Rightarrow> (failed e st2, ls1)
              | Inr ls2 \<Rightarrow>
                 (let next = messages st2 @ [assistantMsg uuid now d]
                  in (st2\<lparr>messages := next, loading := False\<rparr>, saveMessages next ls2)))))"

subsection \<open>The controller as a transition system\<close>

text \<open>
  A handler of \<^verbatim>\<open>Home\<close> is created by a render and reads the state variables of that
  render; what it sets takes effect with the next render. \<^verbatim>\<open>onAsk\<close> reads \<^verbatim>\<open>query\<close>,
  \<^verbatim>\<open>sessionId\<close>, \<^verbatim>\<open>loading\<close>, \<^verbatim>\<open>threadId\<close> and \<^verbatim>\<open>spoilerLevel\<close> in this way; its
  update of the log is a function of the log at the time of the update. So its first
  step in general takes two states: \<^verbatim>\<open>seen\<close>, the state of the render that created
  the handler, and the state the updates apply to. \<^verbatim>\<open>onAsk_begin\<close> is the case where
  the two are the same. The other handlers only set state and read nothing.
\<close>

definition onAsk_begin_from ::
    "state \<Rightarrow> string \<Rightarrow> int \<Rightarrow> state \<Rightarrow> localStorage \<Rightarrow> state \<times> localStorage \<times> RagAnswerRequest option" where
  "onAsk_begin_from seen uuid now st ls =
     (let q = trim (query seen) in
      if q = [] \<or> sessionId seen = [] \<or> loading seen then (st, ls, None)
      else
        (let userMsg = \<lparr>msg_id = uuid, role = User, content = q, createdAt = now,
                         sources = None, interaction_id = None\<rparr>;
             next = messages st @ [userMsg]
         in (st\<lparr>loading := True, err := None, messages := next, query := []\<rparr>,
             saveMessages next ls,
             Some \<lparr>req_sessionId = sessionId seen, req_threadId = threadId seen, req_query = q,
                   req_spoilerLevel = spoilerLevel seen, matchCount = None, docFilter = None,
                   developerMode = None\<rparr>)))"



section \<open>Concrete inputs\<close>

text \<open>Inputs on which the theorems below are instantiated and the code is run.\<close>

definition example_sources :: "RagSource list" where
  "example_sources = [[(''url'', ''a'')], [(''url'', ''a'')], [(''title'', ''b'')]]"

definition nine_sources :: "RagSource list" where
  "nine_sources = map (\<lambda>u. [(''url'', u)]) [''wiki/forge'', ''wiki/shore'', ''wiki/boat'', ''wiki/ore'', ''wiki/coal'',
        ''wiki/kiln'', ''wiki/smelter'', ''wiki/anvil'', ''wiki/troll'']"

definition session_uuid :: string where
  "session_uuid = ''123e4567-e89b-42d3-a456-426614174000''"

definition thread_uuid :: string where
  "thread_uuid = ''9b2f6c1e-5d3a-4f7b-8c21-0a1b2c3d4e5f''"

definition forge_request :: RagAnswerRequest where
  "forge_request =
     \<lparr>req_sessionId = session_uuid, req_threadId = Some ''not-a-uuid'',
      req_query = ''Where is the forge?'', req_spoilerLevel = Fin 33, matchCount = None,
      docFilter = None, developerMode = None\<rparr>"

definition good_reply :: RagAnswerResult where
  "good_reply =
     \<lparr>ok = True, session_id = JStr session_uuid, thread_id = JStr thread_uuid,
      answer = Some ''Near the shore.'', sources_r = Some nine_sources,
      interaction_id_r = None\<rparr>"

definition bad_reply :: RagAnswerResult where
  "bad_reply =
     \<lparr>ok = True, session_id = JStr session_uuid, thread_id = JUndefined,
      answer = Some ''Near the shore.'', sources_r = None, interaction_id_r = None\<rparr>"

definition good_backend :: "request_body \<Rightarrow> invoke_result" where
  "good_backend b = \<lparr>data = Object good_reply, error = None\<rparr>"

definition open_storage :: localStorage where
  "open_storage =
     \<lparr>session_item = Some session_uuid, thread_item = None, messages_item = None,
      game_item = Some ''valheim'', accepts = (\<lambda>k v. True)\<rparr>"

definition refusing_storage :: localStorage where
  "refusing_storage =
     \<lparr>session_item = None, thread_item = None, messages_item = None,
      game_item = None, accepts = (\<lambda>k v. False)\<rparr>"

definition asking_state :: state where
  "asking_state =
     \<lparr>sessionId = session_uuid, threadId = None, gameId = ''valheim'', spoilerLevel = Fin 33,
      query = ''Where is the forge?'', loading = False, err = None, messages = [],
      sourcesForMessageId = None\<rparr>"

definition bad_backend :: "request_body \<Rightarrow> invoke_result" where
  "bad_backend b = \<lparr>data = Object bad_reply, error = None\<rparr>"

definition forge_question :: ChatMessage where
  "forge_question =
     \<lparr>msg_id = ''m1'', role = User, content = ''Where is the forge?'', createdAt = 1,
      sources = None, interaction_id = None\<rparr>"

text \<open>The state and the storage after \<^verbatim>\<open>asking_state\<close> has submitted its question.\<close>

definition sending_state :: state where
  "sending_state =
     \<lparr>sessionId = session_uuid, threadId = None, gameId = ''valheim'', spoilerLevel = Fin 33,
      query = [], loading = True, err = None, messages = [forge_question],
      sourcesForMessageId = None\<rparr>"

definition sending_storage :: localStorage where
  "sending_storage =
     \<lparr>session_item = Some session_uuid, thread_item = None,
      messages_item = Some (Encoded [forge_question]),
      game_item = Some ''valheim'', accepts = (\<lambda>k v. True)\<rparr>"

definition sent_request :: RagAnswerRequest where
  "sent_request =
     \<lparr>req_sessionId = session_uuid, req_threadId = None,
      req_query = ''Where is the forge?'', req_spoilerLevel = Fin 33, matchCount = None,
      docFilter = None, developerMode = None\<rparr>"

text \<open>
  A state in the middle of a conversation, with the source details of a message open and
  some text typed, and a storage that holds the thread and the log but takes no write.
\<close>

definition details_state :: state where
  "details_state =
     \<lparr>sessionId = session_uuid, threadId = Some thread_uuid, gameId = ''valheim'',
      spoilerLevel = Fin 33, query = ''And the anvil?'', loading = False, err = None,
      messages = [forge_question], sourcesForMessageId = Some ''m1''\<rparr>"

definition kept_storage :: localStorage where
  "kept_storage =
     \<lparr>session_item = Some session_uuid, thread_item = Some thread_uuid,
      messages_item = Some (Encoded [forge_question]),
      game_item = Some ''valheim'', accepts = (\<lambda>k v. False)\<rparr>"









section \<open>Spoiler snapping: the properties\<close>

subsection \<open>The loop in closed form\<close>

lemma clamped_Fin: "clamped (Fin r) = Fin (max 0 (min 100 r))"
  by (simp add: clamped_def)

lemma clamped_special:
  "clamped NaN = NaN" "clamped PosInf = Fin 100" "clamped NegInf = Fin 0"
  by (simp_all add: clamped_def)

lemma snap_loop_closed:
  assumes "0 \<le> c" "c \<le> 100"
  shows "fst (foldl (snap_body (Fin c)) (Fin 0, PosInf) SPOILER_SNAP_POINTS) =
     (if c \<le> 33 / 2 then Fin 0
      else if c \<le> 99 / 2 then Fin 33
      else if c \<le> 83 then Fin 66 else Fin 100)"
proof -
  consider "c \<le> 33 / 2" | "33 / 2 < c" "c \<le> 99 / 2" | "99 / 2 < c" "c \<le> 83" | "83 < c"
    by linarith
  then show ?thesis
  proof cases
    case 1
    with assms show ?thesis
      by (simp add: SPOILER_SNAP_POINTS_def snap_body_def Let_def abs_if)
  next
    case 2
    with assms show ?thesis
      by (simp add: SPOILER_SNAP_POINTS_def snap_body_def Let_def abs_if)
  next
    case 3
    with assms show ?thesis
      by (simp add: SPOILER_SNAP_POINTS_def snap_body_def Let_def abs_if)
  next
    case 4
    with assms show ?thesis
      by (simp add: SPOILER_SNAP_POINTS_def snap_body_def Let_def abs_if)
  qed
qed

lemma snap_Fin:
  "snapSpoilerLevel (Fin r) =
     (if r \<le> 33 / 2 then Fin 0
      else if r \<le> 99 / 2 then Fin 33
      else if r \<le> 83 then Fin 66 else Fin 100)"
proof -
  let ?c = "max 0 (min 100 r)"
  have "0 \<le> ?c" "?c \<le> 100" by simp_all
  from snap_loop_closed [OF this] show ?thesis
    unfolding snapSpoilerLevel_def clamped_Fin by (simp add: max_def min_def)
qed

lemma snap_special:
  "snapSpoilerLevel NaN = Fin 0" "snapSpoilerLevel PosInf = Fin 100"
  "snapSpoilerLevel NegInf = Fin 0"
  by (simp_all add: snapSpoilerLevel_def clamped_def SPOILER_SNAP_POINTS_def snap_body_def Let_def)

text \<open>
  C2. Whatever number comes in (NaN and the infinities included), \<^verbatim>\<open>snapSpoilerLevel\<close>
  returns one of 0, 33, 66, 100, and snapping a snapped value changes nothing.
\<close>

theorem snapSpoilerLevel_canonical_idempotent:
  "snapSpoilerLevel v \<in> {Fin 0, Fin 33, Fin 66, Fin 100} \<and>
   snapSpoilerLevel (snapSpoilerLevel v) = snapSpoilerLevel v"
  by (cases v) (simp_all add: snap_Fin snap_special)

lemma nearest_Fin:
  "\<exists>c p. clamped (Fin r) = Fin c \<and> c = max 0 (min 100 r) \<and> snapSpoilerLevel (Fin r) = Fin p \<and>
      Fin p \<in> set SPOILER_SNAP_POINTS \<and>
      (\<forall>q. Fin q \<in> set SPOILER_SNAP_POINTS \<longrightarrow>
         \<bar>c - p\<bar> \<le> \<bar>c - q\<bar> \<and> (\<bar>c - q\<bar> = \<bar>c - p\<bar> \<longrightarrow> p \<le> q))"
proof -
  consider "r \<le> 33 / 2" | "33 / 2 < r" "r \<le> 99 / 2" | "99 / 2 < r" "r \<le> 83" | "83 < r"
    by linarith
  then show ?thesis
  proof cases
    case 1
    then show ?thesis
      by (auto simp add: snap_Fin clamped_Fin SPOILER_SNAP_POINTS_def max_def min_def)
  next
    case 2
    then show ?thesis
      by (auto simp add: snap_Fin clamped_Fin SPOILER_SNAP_POINTS_def max_def min_def)
  next
    case 3
    then show ?thesis
      by (auto simp add: snap_Fin clamped_Fin SPOILER_SNAP_POINTS_def max_def min_def)
  next
    case 4
    then show ?thesis
      by (auto simp add: snap_Fin clamped_Fin SPOILER_SNAP_POINTS_def max_def min_def)
  qed
qed

lemma nearest_PosInf:
  "\<exists>c p. clamped PosInf = Fin c \<and> c = 100 \<and> snapSpoilerLevel PosInf = Fin p \<and>
      Fin p \<in> set SPOILER_SNAP_POINTS \<and>
      (\<forall>q. Fin q \<in> set SPOILER_SNAP_POINTS \<longrightarrow>
         \<bar>c - p\<bar> \<le> \<bar>c - q\<bar> \<and> (\<bar>c - q\<bar> = \<bar>c - p\<bar> \<longrightarrow> p \<le> q))"
   by (auto simp add: snap_special clamped_special SPOILER_SNAP_POINTS_def)

lemma nearest_NegInf:
  "\<exists>c p. clamped NegInf = Fin c \<and> c = 0 \<and> snapSpoilerLevel NegInf = Fin p \<and>
      Fin p \<in> set SPOILER_SNAP_POINTS \<and>
      (\<forall>q. Fin q \<in> set SPOILER_SNAP_POINTS \<longrightarrow>
         \<bar>c - p\<bar> \<le> \<bar>c - q\<bar> \<and> (\<bar>c - q\<bar> = \<bar>c - p\<bar> \<longrightarrow> p \<le> q))"
   by (auto simp add: snap_special clamped_special SPOILER_SNAP_POINTS_def)


text \<open>
  C3. \<^verbatim>\<open>snapSpoilerLevel\<close> clamps its argument to the interval from 0 to 100 (a finite
  \<^verbatim>\<open>r\<close> to \<^verbatim>\<open>max 0 (min 100 r)\<close>, the infinities to the ends) and returns a
  canonical value at minimum absolute distance from the clamped value; when another
  canonical value is at the same distance, the one returned is the lower, which is the
  one declared earlier. In particular 16 snaps to 0, 17 to 33, and the exact midpoint
  16.5 to 0. NaN has no distance to anything: it stays NaN under the clamp, every
  comparison in the loop fails, and the initial value 0 is returned.
\<close>

theorem snapSpoilerLevel_nearest_lower_on_tie:
  "(v \<noteq> NaN \<longrightarrow>
     (\<exists>c p. clamped v = Fin c \<and> 0 \<le> c \<and> c \<le> 100 \<and> snapSpoilerLevel v = Fin p \<and>
        Fin p \<in> set SPOILER_SNAP_POINTS \<and>
        (\<forall>q. Fin q \<in> set SPOILER_SNAP_POINTS \<longrightarrow>
           \<bar>c - p\<bar> \<le> \<bar>c - q\<bar> \<and> (\<bar>c - q\<bar> = \<bar>c - p\<bar> \<longrightarrow> p \<le> q)))) \<and>
   (\<forall>r. clamped (Fin r) = Fin (max 0 (min 100 r))) \<and>
   clamped PosInf = Fin 100 \<and> clamped NegInf = Fin 0 \<and>
   snapSpoilerLevel (Fin 16) = Fin 0 \<and>
   snapSpoilerLevel (Fin 17) = Fin 33 \<and>
   snapSpoilerLevel (Fin (33 / 2)) = Fin 0 \<and>
   clamped NaN = NaN \<and> snapSpoilerLevel NaN = Fin 0"
proof -
  have main: "v \<noteq> NaN \<longrightarrow>
     (\<exists>c p. clamped v = Fin c \<and> 0 \<le> c \<and> c \<le> 100 \<and> snapSpoilerLevel v = Fin p \<and>
        Fin p \<in> set SPOILER_SNAP_POINTS \<and>
        (\<forall>q. Fin q \<in> set SPOILER_SNAP_POINTS \<longrightarrow>
           \<bar>c - p\<bar> \<le> \<bar>c - q\<bar> \<and> (\<bar>c - q\<bar> = \<bar>c - p\<bar> \<longrightarrow> p \<le> q)))"
  proof (cases v)
    case NaN
    then show ?thesis by simp
  next
    case NegInf
    with nearest_NegInf show ?thesis by fastforce
  next
    case (Fin r)
    from nearest_Fin [of r] obtain c p where
      "clamped (Fin r) = Fin c" "c = max 0 (min 100 r)" "snapSpoilerLevel (Fin r) = Fin p"
      "Fin p \<in> set SPOILER_SNAP_POINTS"
      "\<forall>q. Fin q \<in> set SPOILER_SNAP_POINTS \<longrightarrow>
         \<bar>c - p\<bar> \<le> \<bar>c - q\<bar> \<and> (\<bar>c - q\<bar> = \<bar>c - p\<bar> \<longrightarrow> p \<le> q)"
      by blast
    moreover from this(2) have "0 \<le> c" "c \<le> 100" by simp_all
    ultimately show ?thesis using Fin by blast
  next
    case PosInf
    with nearest_PosInf show ?thesis by fastforce
  qed
  show ?thesis
    using main by (simp add: clamped_Fin clamped_special snap_Fin snap_special)
qed

theorem snapSpoilerLevel_nearest_lower_on_tie_witness:
  "Fin (33 / 2) \<noteq> NaN \<and>
   (\<exists>c p. clamped (Fin (33 / 2)) = Fin c \<and> 0 \<le> c \<and> c \<le> 100 \<and>
      snapSpoilerLevel (Fin (33 / 2)) = Fin p \<and> Fin p \<in> set SPOILER_SNAP_POINTS \<and>
      (\<forall>q. Fin q \<in> set SPOILER_SNAP_POINTS \<longrightarrow>
         \<bar>c - p\<bar> \<le> \<bar>c - q\<bar> \<and> (\<bar>c - q\<bar> = \<bar>c - p\<bar> \<longrightarrow> p \<le> q)))"
proof -
  have h: "Fin (33 / 2) \<noteq> NaN" by simp
  from snapSpoilerLevel_nearest_lower_on_tie [of "Fin (33 / 2)"] h show ?thesis
    by blast
qed

section \<open>Deduplication of sources\<close>

subsection \<open>The loop over the map is the first-occurrence filter\<close>

lemma fold_keep_first:
  "map fst m = map key (map snd m) \<Longrightarrow>
   map snd (foldl (\<lambda>m s. let k = key s in if \<not> Map_has m k then Map_set m k s else m) m xs)
     = map snd m @ keep_first key (rev (map fst m)) xs"
proof (induction xs arbitrary: m)
  case Nil
  then show ?case by simp
next
  case (Cons x xs)
  show ?case
  proof (cases "Map_has m (key x)")
    case True
    with Cons show ?thesis by (simp add: Map_has_def)
  next
    case False
    have "map fst (m @ [(key x, x)]) = map key (map snd (m @ [(key x, x)]))"
      using Cons.prems by simp
    from Cons.IH [OF this] False show ?thesis
      by (simp add: Map_has_def Map_set_def)
  qed
qed


lemma dedupeSources_keep_first: "dedupeSources xs = keep_first sourceKey [] xs"
  using fold_keep_first [of "[]" sourceKey xs]
  by (simp add: dedupeSources_def Map_values_def dedupe_body_def [abs_def])

lemma keep_first_fresh: "y \<in> set (keep_first key seen xs) \<Longrightarrow> key y \<notin> set seen"
proof (induction xs arbitrary: seen)
  case Nil
  then show ?case by simp
next
  case (Cons x xs)
  show ?case
  proof (cases "key x \<in> set seen")
    case True
    with Cons show ?thesis by simp
  next
    case False
    with Cons.prems have "y = x \<or> y \<in> set (keep_first key (key x # seen) xs)" by simp
    then show ?thesis
    proof
      assume "y = x"
      with False show ?thesis by simp
    next
      assume "y \<in> set (keep_first key (key x # seen) xs)"
      from Cons.IH [OF this] show ?thesis by simp
    qed
  qed
qed

lemma keep_first_keys_fresh: "key ` set (keep_first key seen xs) \<inter> set seen = {}"
  using keep_first_fresh [of _ key seen xs] by auto

lemma keep_first_distinct: "distinct (map key (keep_first key seen xs))"
proof (induction xs arbitrary: seen)
  case Nil
  then show ?case by simp
next
  case (Cons x xs)
  from keep_first_keys_fresh [of key "key x # seen" xs]
  have "key x \<notin> key ` set (keep_first key (key x # seen) xs)" by auto
  with Cons.IH show ?case by simp
qed

lemma keep_first_subseq: "subseq (keep_first key seen xs) xs"
  by (induction xs arbitrary: seen) auto

lemma keep_first_keys: "key ` set (keep_first key seen xs) = key ` set xs - set seen"
  by (induction xs arbitrary: seen) auto

lemma keep_first_find:
  "y \<in> set (keep_first key seen xs) \<Longrightarrow> find (\<lambda>x. key x = key y) xs = Some y"
proof (induction xs arbitrary: seen)
  case Nil
  then show ?case by simp
next
  case (Cons x xs)
  show ?case
  proof (cases "key x \<in> set seen")
    case True
    with Cons.prems have y: "y \<in> set (keep_first key seen xs)" by simp
    with keep_first_keys_fresh [of key seen xs] True have "key x \<noteq> key y" by auto
    with Cons.IH [OF y] show ?thesis by simp
  next
    case False
    show ?thesis
    proof (cases "y = x")
      case True
      then show ?thesis by simp
    next
      case ne: False
      with False Cons.prems have y: "y \<in> set (keep_first key (key x # seen) xs)" by simp
      with keep_first_keys_fresh [of key "key x # seen" xs] have "key x \<noteq> key y" by auto
      with Cons.IH [OF y] show ?thesis by simp
    qed
  qed
qed

lemma keep_first_fixed:
  "distinct (map key ys) \<Longrightarrow> key ` set ys \<inter> set seen = {} \<Longrightarrow> keep_first key seen ys = ys"
  by (induction ys arbitrary: seen) auto

lemma keep_first_take:
  "keep_first key [] (take n (keep_first key [] xs)) = take n (keep_first key [] xs)"
  by (rule keep_first_fixed) (simp_all add: keep_first_distinct take_map [symmetric])


lemma dedupeSources_take: "dedupeSources (take n (dedupeSources xs)) = take n (dedupeSources xs)"
  by (simp add: dedupeSources_keep_first keep_first_take)

lemma dedupeSources_example:
  "dedupeSources example_sources = [[(''url'', ''a'')], [(''title'', ''b'')]]"
  by (simp add: example_sources_def dedupeSources_def dedupe_body_def Map_has_def Map_set_def
      Map_values_def sourceKey_def or_else_def get_prop_def trim_def is_ws_def Let_def)

text \<open>
  C4. \<^verbatim>\<open>dedupeSources\<close> goes through the records in input order and keeps exactly the
  first record of every dedup key: it is the first-occurrence filter of the
  specification, its keys are pairwise distinct, it is a subsequence of the input (so the
  order of first appearance is kept), no key is lost, and the record kept for a key is
  the first input record with that key. It is idempotent, and on
  \<^verbatim>\<open>[{url:"a"},{url:"a"},{title:"b"}]\<close> it returns the two records
  \<^verbatim>\<open>[{url:"a"},{title:"b"}]\<close>.
\<close>

theorem dedupeSources_first_occurrence:
  "dedupeSources xs = keep_first sourceKey [] xs \<and>
   distinct (map sourceKey (dedupeSources xs)) \<and>
   subseq (dedupeSources xs) xs \<and>
   sourceKey ` set (dedupeSources xs) = sourceKey ` set xs \<and>
   (\<forall>y \<in> set (dedupeSources xs). find (\<lambda>x. sourceKey x = sourceKey y) xs = Some y) \<and>
   dedupeSources (dedupeSources xs) = dedupeSources xs \<and>
   dedupeSources example_sources = [[(''url'', ''a'')], [(''title'', ''b'')]] \<and>
   length (dedupeSources example_sources) = 2"
proof -
  have idem: "dedupeSources (dedupeSources xs) = dedupeSources xs"
    using dedupeSources_take [of "length (dedupeSources xs)" xs] by simp
  have first: "\<forall>y \<in> set (dedupeSources xs). find (\<lambda>x. sourceKey x = sourceKey y) xs = Some y"
    by (simp add: dedupeSources_keep_first keep_first_find)
  show ?thesis
    using idem first
    by (simp add: dedupeSources_example)
       (simp add: dedupeSources_keep_first keep_first_distinct keep_first_subseq keep_first_keys)
qed

theorem dedupeSources_first_occurrence_witness:
  "[(''title'', ''b'')] \<in> set (dedupeSources example_sources) \<and>
   find (\<lambda>x. sourceKey x = sourceKey [(''title'', ''b'')]) example_sources = Some [(''title'', ''b'')] \<and>
   dedupeSources (dedupeSources example_sources) = dedupeSources example_sources"
proof -
  note t = dedupeSources_first_occurrence [of example_sources]
  have m: "[(''title'', ''b'')] \<in> set (dedupeSources example_sources)"
    by (simp add: dedupeSources_example)
  from t have "\<forall>y \<in> set (dedupeSources example_sources).
      find (\<lambda>x. sourceKey x = sourceKey y) example_sources = Some y"
    by (elim conjE)
  with m have "find (\<lambda>x. sourceKey x = sourceKey [(''title'', ''b'')]) example_sources
      = Some [(''title'', ''b'')]"
    by blast
  moreover from t have "dedupeSources (dedupeSources example_sources) = dedupeSources example_sources"
    by (elim conjE)
  ultimately show ?thesis using m by (intro conjI)
qed

section \<open>The gateway\<close>

lemma uuid_pattern_length: "length uuid_pattern = 36"
  by (simp add: uuid_pattern_def)

lemma matches_uuid_length: "matches_uuid s \<Longrightarrow> length s = 36"
  using list_all2_lengthD [of "\<lambda>p c. p c" uuid_pattern s]
  by (simp add: matches_uuid_def uuid_pattern_length)

lemma isValidUuid_JStr: "isValidUuid v \<Longrightarrow> \<exists>s. v = JStr s \<and> s \<noteq> [] \<and> str_of v = s"
  using matches_uuid_length by (cases v) force+

lemma session_uuid_valid: "isValidUuid (JStr session_uuid)"
  by code_simp

lemma thread_uuid_valid: "isValidUuid (JStr thread_uuid)"
  by code_simp

lemma not_a_uuid: "\<not> isValidUuid (JStr ''not-a-uuid'')"
  by code_simp

lemma thread_field:
  "map_of (request_body req) ''thread_id'' =
     (case req_threadId req of None \<Rightarrow> None
      | Some t \<Rightarrow> if isValidUuid (JStr t) then Some (JStr t) else None)"
proof -
  have ne: "\<And>t. isValidUuid (JStr t) \<Longrightarrow> t \<noteq> []"
    using isValidUuid_JStr by blast
  show ?thesis
    by (auto simp add: request_body_def ne split: option.splits)
qed

lemma request_body_malformed:
  "\<not> isValidUuid (JStr t) \<Longrightarrow>
   request_body (req\<lparr>req_threadId := Some t\<rparr>) = request_body (req\<lparr>req_threadId := None\<rparr>)"
  by (simp add: request_body_def)


lemma ragAnswer_check_missing:
  "\<not> isValidUuid (session_id d) \<or> \<not> isValidUuid (thread_id d) \<Longrightarrow>
   ragAnswer_check \<lparr>data = Object d, error = None\<rparr> = Inl (ApiError (missing_ids (Object d)))"
  by (auto simp add: ragAnswer_check_def)

text \<open>
  C6. The body sent to the backend has the property \<^verbatim>\<open>thread_id\<close> exactly when the
  request carries a thread id that passes the well-formed-id check, and then the
  property is that id. A thread id that fails the check is dropped without an error: the
  body, and with it the outcome of \<^verbatim>\<open>ragAnswer\<close>, is the one of the same request
  without a thread id.
\<close>

theorem thread_id_sent_iff_valid:
  "has_field (request_body req) ''thread_id'' =
     (\<exists>t. req_threadId req = Some t \<and> isValidUuid (JStr t)) \<and>
   (\<forall>t. req_threadId req = Some t \<and> isValidUuid (JStr t) \<longrightarrow>
      map_of (request_body req) ''thread_id'' = Some (JStr t)) \<and>
   (\<forall>t. \<not> isValidUuid (JStr t) \<longrightarrow>
      request_body (req\<lparr>req_threadId := Some t\<rparr>) = request_body (req\<lparr>req_threadId := None\<rparr>) \<and>
      ragAnswer invoke (req\<lparr>req_threadId := Some t\<rparr>) =
        ragAnswer invoke (req\<lparr>req_threadId := None\<rparr>))"
  by (auto simp add: has_field_def thread_field ragAnswer_def request_body_malformed
      split: option.splits)

theorem thread_id_sent_iff_valid_witness:
  "\<not> isValidUuid (JStr ''not-a-uuid'') \<and>
   \<not> has_field (request_body forge_request) ''thread_id'' \<and>
   ragAnswer good_backend forge_request = ragAnswer good_backend (forge_request\<lparr>req_threadId := None\<rparr>) \<and>
   isValidUuid (JStr thread_uuid) \<and>
   map_of (request_body (forge_request\<lparr>req_threadId := Some thread_uuid\<rparr>)) ''thread_id''
     = Some (JStr thread_uuid)"
proof -
  have same: "forge_request\<lparr>req_threadId := Some ''not-a-uuid''\<rparr> = forge_request"
    by (simp add: forge_request_def)
  have sup: "req_threadId forge_request = Some ''not-a-uuid''"
    by (simp add: forge_request_def)
  note a = thread_id_sent_iff_valid [of forge_request good_backend]
  note b = thread_id_sent_iff_valid [of "forge_request\<lparr>req_threadId := Some thread_uuid\<rparr>" good_backend]
  from a sup not_a_uuid have "\<not> has_field (request_body forge_request) ''thread_id''"
    by simp
  moreover from a not_a_uuid same
  have "ragAnswer good_backend forge_request = ragAnswer good_backend (forge_request\<lparr>req_threadId := None\<rparr>)"
    by metis
  moreover from b thread_uuid_valid
  have "map_of (request_body (forge_request\<lparr>req_threadId := Some thread_uuid\<rparr>)) ''thread_id''
     = Some (JStr thread_uuid)"
    by simp
  ultimately show ?thesis using not_a_uuid thread_uuid_valid by simp
qed

lemma onAsk_settle_failure:
  "onAsk_settle uuid now (Inl (ApiError e)) st ls = (st\<lparr>err := Some (ApiError e), loading := False\<rparr>, ls)"
  by (simp add: onAsk_settle_def failed_def)

text \<open>
  C5. When the backend answers with an object whose \<^verbatim>\<open>session_id\<close> or \<^verbatim>\<open>thread_id\<close>
  fails the well-formed-id check, \<^verbatim>\<open>ragAnswer\<close> throws the error with the message
  "Backend response missing session_id/thread_id", status 500 and the raw answer as
  body, and \<^verbatim>\<open>onAsk\<close> records that error and appends nothing: the message log, in
  memory and in storage, is the one from before. An object that has neither property
  is rejected in the same way.
\<close>

theorem missing_ids_rejected:
  assumes reply: "invoke (request_body req) = \<lparr>data = Object d, error = None\<rparr>"
    and bad: "\<not> isValidUuid (session_id d) \<or> \<not> isValidUuid (thread_id d)"
  shows "ragAnswer invoke req =
           Inl (ApiError \<lparr>name = ''RagApiError'',
                          message = ''Backend response missing session_id/thread_id'',
                          status = Some (Fin 500), statusText = None,
                          body = Some (BodyPayload (Object d))\<rparr>) \<and>
         onAsk_settle uuid now (ragAnswer invoke req) st ls =
           (st\<lparr>err := Some (ApiError (missing_ids (Object d))), loading := False\<rparr>, ls) \<and>
         messages (fst (onAsk_settle uuid now (ragAnswer invoke req) st ls)) = messages st \<and>
         loadMessages (snd (onAsk_settle uuid now (ragAnswer invoke req) st ls)) = loadMessages ls \<and>
         ragAnswer_check \<lparr>data = Value JObject, error = None\<rparr> =
           Inl (ApiError (missing_ids (Value JObject)))"
proof -
  have r: "ragAnswer invoke req = Inl (ApiError (missing_ids (Object d)))"
    using ragAnswer_check_missing [OF bad] by (simp add: ragAnswer_def reply)
  have v: "ragAnswer_check \<lparr>data = Value JObject, error = None\<rparr> =
      Inl (ApiError (missing_ids (Value JObject)))"
    by (simp add: ragAnswer_check_def)
  show ?thesis
    unfolding r onAsk_settle_failure using v by (simp add: missing_ids_def)
qed

theorem missing_ids_rejected_witness:
  "\<not> isValidUuid (thread_id bad_reply) \<and>
   ragAnswer (\<lambda>b. \<lparr>data = Object bad_reply, error = None\<rparr>) forge_request =
     Inl (ApiError \<lparr>name = ''RagApiError'',
                    message = ''Backend response missing session_id/thread_id'',
                    status = Some (Fin 500), statusText = None,
                    body = Some (BodyPayload (Object bad_reply))\<rparr>) \<and>
   messages (fst (onAsk_settle ''m2'' 2
       (ragAnswer (\<lambda>b. \<lparr>data = Object bad_reply, error = None\<rparr>) forge_request)
       asking_state open_storage)) = messages asking_state"
proof -
  have bad: "\<not> isValidUuid (session_id bad_reply) \<or> \<not> isValidUuid (thread_id bad_reply)"
    by (simp add: bad_reply_def)
  have reply: "(\<lambda>b. \<lparr>data = Object bad_reply, error = None\<rparr>) (request_body forge_request) =
      \<lparr>data = Object bad_reply, error = None\<rparr>"
    by simp
  from missing_ids_rejected [of "\<lambda>b. \<lparr>data = Object bad_reply, error = None\<rparr>" forge_request
      bad_reply "''m2''" 2 asking_state open_storage, OF reply bad]
  have "ragAnswer (\<lambda>b. \<lparr>data = Object bad_reply, error = None\<rparr>) forge_request =
     Inl (ApiError \<lparr>name = ''RagApiError'',
                    message = ''Backend response missing session_id/thread_id'',
                    status = Some (Fin 500), statusText = None,
                    body = Some (BodyPayload (Object bad_reply))\<rparr>)"
    and "messages (fst (onAsk_settle ''m2'' 2
       (ragAnswer (\<lambda>b. \<lparr>data = Object bad_reply, error = None\<rparr>) forge_request)
       asking_state open_storage)) = messages asking_state"
    by blast+
  moreover have "\<not> isValidUuid (thread_id bad_reply)"
    by (simp add: bad_reply_def)
  ultimately show ?thesis by blast
qed

section \<open>The controller\<close>

subsection \<open>The guard of onAsk and the requests in flight\<close>

lemma mount_not_loading: "mount uuid ls = Inr (st, ls') \<Longrightarrow> \<not> loading st"
  by (auto simp add: mount_def initial_state_def split: sum.splits prod.splits)

lemma onAsk_begin_rejected:
  "trim (query st) = [] \<or> sessionId st = [] \<or> loading st \<Longrightarrow>
   onAsk_begin uuid now st ls = (st, ls, None)"
  by (auto simp add: onAsk_begin_def Let_def)

lemma onAsk_begin_accepted:
  "\<not> (trim (query st) = [] \<or> sessionId st = [] \<or> loading st) \<Longrightarrow>
   \<exists>st' ls' req. onAsk_begin uuid now st ls = (st', ls', Some req) \<and> loading st'"
  by (simp add: onAsk_begin_def Let_def)

lemma onAsk_begin_dispatch:
  "onAsk_begin uuid now st ls = (st', ls', Some req) \<Longrightarrow> \<not> loading st \<and> loading st'"
  by (auto simp add: onAsk_begin_def Let_def split: if_splits)

lemma onAsk_begin_none:
  "onAsk_begin uuid now st ls = (st', ls', None) \<Longrightarrow> st' = st \<and> ls' = ls"
  by (auto simp add: onAsk_begin_def Let_def split: if_splits)

lemma onAsk_settle_not_loading:
  "onAsk_settle uuid now outcome st ls = (st', ls') \<Longrightarrow> \<not> loading st'"
  by (auto simp add: onAsk_settle_def failed_def Let_def split: sum.splits)

lemma resetThread_loading:
  "resetThread st ls = (st', ls') \<Longrightarrow> loading st' = loading st"
  by (auto simp add: resetThread_def Let_def split: sum.splits)

lemma asking_state_submits:
  "onAsk_begin ''m1'' 1 asking_state open_storage = (sending_state, sending_storage, Some sent_request)"
  by (simp add: onAsk_begin_def asking_state_def open_storage_def sending_state_def
      sending_storage_def sent_request_def forge_question_def session_uuid_def trim_def is_ws_def
      saveMessages_def setItem_messages_def Let_def)


text \<open>
  What holds of the guard: a submit whose handler has seen \<^verbatim>\<open>loading\<close> set, a
  query that is empty after trimming, or no session id changes nothing and hands no
  request to the gateway; a submit that hands one over had not seen \<^verbatim>\<open>loading\<close> set,
  and sets it.
\<close>

lemma onAsk_guard:
  "(loading seen \<or> trim (query seen) = [] \<or> sessionId seen = [] \<longrightarrow>
      onAsk_begin_from seen uuid now st ls = (st, ls, None)) \<and>
   (\<forall>st' ls' req. onAsk_begin_from seen uuid now st ls = (st', ls', Some req) \<longrightarrow>
      \<not> loading seen \<and> loading st')"
  by (auto simp add: onAsk_begin_from_def Let_def split: if_splits)







subsection \<open>The session identifier\<close>

lemma getOrCreateSessionId_existing:
  "session_item ls = Some s \<Longrightarrow> s \<noteq> [] \<Longrightarrow> getOrCreateSessionId uuid ls = Inr (s, ls)"
  by (simp add: getOrCreateSessionId_def)

lemma getOrCreateSessionId_create:
  "session_item ls = None \<or> session_item ls = Some [] \<Longrightarrow>
   accepts ls LS_SESSION (LsString uuid) \<Longrightarrow>
   getOrCreateSessionId uuid ls = Inr (uuid, ls\<lparr>session_item := Some uuid\<rparr>)"
  by (auto simp add: getOrCreateSessionId_def setItem_session_def)

lemma getOrCreateSessionId_refused:
  "session_item ls = None \<or> session_item ls = Some [] \<Longrightarrow>
   \<not> accepts ls LS_SESSION (LsString uuid) \<Longrightarrow>
   getOrCreateSessionId uuid ls = Inl QuotaExceededError"
  by (auto simp add: getOrCreateSessionId_def setItem_session_def)

lemma getOrCreateSessionId_twice:
  assumes "getOrCreateSessionId uuid ls = Inr (v, ls')" and "uuid \<noteq> []"
  shows "getOrCreateSessionId uuid' ls' = Inr (v, ls')"
  using assms
  by (auto simp add: getOrCreateSessionId_def setItem_session_def
      split: option.splits if_splits)

text \<open>
  What holds of \<^verbatim>\<open>getOrCreateSessionId\<close>: a non-empty stored identifier is returned
  and nothing is written; otherwise, when the browser takes the write, the fresh
  identifier is stored and returned; and a second call right after a call that returned
  gives the same identifier and leaves the storage as it is.
\<close>

lemma getOrCreateSessionId_when_accepted:
  "(\<forall>s. session_item ls = Some s \<and> s \<noteq> [] \<longrightarrow> getOrCreateSessionId uuid ls = Inr (s, ls)) \<and>
   ((session_item ls = None \<or> session_item ls = Some []) \<and> accepts ls LS_SESSION (LsString uuid) \<longrightarrow>
      getOrCreateSessionId uuid ls = Inr (uuid, ls\<lparr>session_item := Some uuid\<rparr>)) \<and>
   (\<forall>v ls'. getOrCreateSessionId uuid ls = Inr (v, ls') \<and> uuid \<noteq> [] \<longrightarrow>
      getOrCreateSessionId uuid' ls' = Inr (v, ls'))"
  using getOrCreateSessionId_existing getOrCreateSessionId_create getOrCreateSessionId_twice
  by blast

text \<open>
  C8. With no identifier stored and a browser that refuses the write (private mode,
  quota exceeded), \<^verbatim>\<open>getOrCreateSessionId\<close> does not return an identifier: the
  exception of \<^verbatim>\<open>localStorage.setItem\<close> leaves the function, and with it the effect
  that mounts the component. \<^verbatim>\<open>saveMessages\<close>, on the same storage, swallows it.
\<close>

theorem getOrCreateSessionId_throws_when_write_refused:
  "getOrCreateSessionId session_uuid refusing_storage = Inl QuotaExceededError \<and>
   mount session_uuid refusing_storage = Inl QuotaExceededError \<and>
   saveMessages [forge_question] refusing_storage = refusing_storage"
  by (simp add: getOrCreateSessionId_def setItem_session_def mount_def saveMessages_def
      setItem_messages_def refusing_storage_def)

subsection \<open>resetThread\<close>

lemma resetThread_eq:
  "resetThread st ls =
     (st\<lparr>threadId := None, messages := [], err := None, query := [], sourcesForMessageId := None\<rparr>,
      if accepts ls LS_MESSAGES (LsLog [])
      then ls\<lparr>thread_item := None, messages_item := Some (Encoded [])\<rparr>
      else ls\<lparr>thread_item := None\<rparr>)"
  by (simp add: resetThread_def saveThreadId_def saveMessages_def setItem_messages_def)


text \<open>
  C9, as stated, fails twice: \<^verbatim>\<open>resetThread\<close> also closes the source details, and
  the stored log stays when the browser refuses the write of the empty log.
\<close>

theorem resetThread_exactly_four_counterexample:
  "fst (resetThread details_state open_storage) \<noteq>
     details_state\<lparr>threadId := None, messages := [], err := None, query := []\<rparr> \<and>
   sourcesForMessageId (fst (resetThread details_state open_storage)) \<noteq>
     sourcesForMessageId details_state \<and>
   loadMessages (snd (resetThread details_state kept_storage)) \<noteq> []"
  by (simp add: resetThread_eq details_state_def kept_storage_def open_storage_def
      loadMessages_def)

text \<open>
  C9, amended. \<^verbatim>\<open>resetThread\<close> clears the thread id in memory and in storage, the
  message log in memory, the displayed error, the input text and the selection of the
  source details; it overwrites the stored log with the empty log when the browser
  takes that write, and leaves it when not. Nothing else changes: the session
  identifier, in memory and in storage, the game, the spoiler level and \<^verbatim>\<open>loading\<close>
  are as before.
\<close>

theorem resetThread_effect:
  "resetThread st ls =
     (st\<lparr>threadId := None, messages := [], err := None, query := [], sourcesForMessageId := None\<rparr>,
      if accepts ls LS_MESSAGES (LsLog [])
      then ls\<lparr>thread_item := None, messages_item := Some (Encoded [])\<rparr>
      else ls\<lparr>thread_item := None\<rparr>) \<and>
   sessionId (fst (resetThread st ls)) = sessionId st \<and>
   session_item (snd (resetThread st ls)) = session_item ls \<and>
   loadThreadId (snd (resetThread st ls)) = None \<and>
   loadMessages (snd (resetThread st ls)) =
     (if accepts ls LS_MESSAGES (LsLog []) then [] else loadMessages ls)"
  by (simp add: resetThread_eq loadThreadId_def loadMessages_def)

subsection \<open>A failed ask\<close>

lemma onAsk_begin_accepted_eq:
  assumes "trim (query st) \<noteq> []" "sessionId st \<noteq> []" "\<not> loading st"
  shows "onAsk_begin uuid now st ls =
     (st\<lparr>loading := True, err := None,
         messages := messages st @ [\<lparr>msg_id = uuid, role = User, content = trim (query st),
            createdAt = now, sources = None, interaction_id = None\<rparr>],
         query := []\<rparr>,
      saveMessages (messages st @ [\<lparr>msg_id = uuid, role = User, content = trim (query st),
            createdAt = now, sources = None, interaction_id = None\<rparr>]) ls,
      Some \<lparr>req_sessionId = sessionId st, req_threadId = threadId st, req_query = trim (query st),
            req_spoilerLevel = spoilerLevel st, matchCount = None, docFilter = None,
            developerMode = None\<rparr>)"
  using assms by (simp add: onAsk_begin_def Let_def)

lemma onAsk_settle_thrown:
  "onAsk_settle uuid now (Inl e) st ls = (st\<lparr>err := Some (on_catch e), loading := False\<rparr>, ls)"
  by (simp add: onAsk_settle_def failed_def)

lemma saveMessages_identity:
  "session_item (saveMessages ms ls) = session_item ls \<and>
   thread_item (saveMessages ms ls) = thread_item ls \<and>
   game_item (saveMessages ms ls) = game_item ls \<and>
   accepts (saveMessages ms ls) = accepts ls"
  by (simp add: saveMessages_def setItem_messages_def)

text \<open>
  C10, as stated, fails: an ask that fails has also cleared the input text.
\<close>

theorem failed_ask_only_error_and_message_counterexample:
  "query (fst (onAsk_settle ''m2'' 2 (ragAnswer bad_backend sent_request)
       (fst (onAsk_begin ''m1'' 1 asking_state open_storage))
       (fst (snd (onAsk_begin ''m1'' 1 asking_state open_storage))))) \<noteq> query asking_state \<and>
   fst (onAsk_settle ''m2'' 2 (ragAnswer bad_backend sent_request)
       (fst (onAsk_begin ''m1'' 1 asking_state open_storage))
       (fst (snd (onAsk_begin ''m1'' 1 asking_state open_storage)))) \<noteq>
     asking_state\<lparr>err := Some (ApiError (missing_ids (Object bad_reply))),
                   messages := [forge_question]\<rparr>"
  unfolding asking_state_submits fst_conv snd_conv
  by (simp add: ragAnswer_def bad_backend_def ragAnswer_check_def
      bad_reply_def onAsk_settle_thrown sending_state_def asking_state_def)

text \<open>
  C10, amended. When the gateway throws, the catch clause records the error and
  resets \<^verbatim>\<open>loading\<close>, and touches neither the state's identifiers nor the storage. So
  after an ask that was accepted and then failed, the session id and the thread id, in
  memory and in storage, are the ones from before the ask; the state differs from the
  one before the ask in the recorded error, the user message appended on entry and the
  input text cleared on entry; and the storage differs in the stored log, to which the
  user message was written when the browser took the write.
\<close>

theorem failed_ask_keeps_identity:
  assumes guard: "trim (query st) \<noteq> []" "sessionId st \<noteq> []" "\<not> loading st"
    and entry: "onAsk_begin uuid now st ls = (st1, ls1, Some req)"
    and thrown: "ragAnswer invoke req = Inl e"
    and failure: "onAsk_settle uuid' now' (ragAnswer invoke req) st1 ls1 = (st2, ls2)"
  shows "sessionId st2 = sessionId st \<and> threadId st2 = threadId st \<and>
         session_item ls2 = session_item ls \<and> thread_item ls2 = thread_item ls \<and>
         st2 = st\<lparr>err := Some (on_catch e),
                   messages := messages st @ [\<lparr>msg_id = uuid, role = User,
                      content = trim (query st), createdAt = now, sources = None,
                      interaction_id = None\<rparr>],
                   query := []\<rparr> \<and>
         ls2 = saveMessages (messages st @ [\<lparr>msg_id = uuid, role = User,
                      content = trim (query st), createdAt = now, sources = None,
                      interaction_id = None\<rparr>]) ls \<and>
         onAsk_settle uuid' now' (ragAnswer invoke req) st1 ls1 =
           (st1\<lparr>err := Some (on_catch e), loading := False\<rparr>, ls1)"
  using entry failure guard(3)
  unfolding onAsk_begin_accepted_eq [OF guard] thrown onAsk_settle_thrown
  by (auto simp add: saveMessages_identity)

lemma bad_backend_throws:
  "ragAnswer bad_backend sent_request = Inl (ApiError (missing_ids (Object bad_reply)))"
  by (simp add: ragAnswer_def bad_backend_def ragAnswer_check_def bad_reply_def)

theorem failed_ask_keeps_identity_witness:
  "trim (query asking_state) \<noteq> [] \<and> sessionId asking_state \<noteq> [] \<and> \<not> loading asking_state \<and>
   onAsk_begin ''m1'' 1 asking_state open_storage = (sending_state, sending_storage, Some sent_request) \<and>
   ragAnswer bad_backend sent_request = Inl (ApiError (missing_ids (Object bad_reply))) \<and>
   sessionId (fst (onAsk_settle ''m2'' 2 (ragAnswer bad_backend sent_request) sending_state sending_storage))
     = sessionId asking_state \<and>
   threadId (fst (onAsk_settle ''m2'' 2 (ragAnswer bad_backend sent_request) sending_state sending_storage))
     = threadId asking_state \<and>
   session_item (snd (onAsk_settle ''m2'' 2 (ragAnswer bad_backend sent_request) sending_state sending_storage))
     = session_item open_storage \<and>
   thread_item (snd (onAsk_settle ''m2'' 2 (ragAnswer bad_backend sent_request) sending_state sending_storage))
     = thread_item open_storage"
proof -
  have g: "trim (query asking_state) \<noteq> []" "sessionId asking_state \<noteq> []" "\<not> loading asking_state"
    by (simp_all add: asking_state_def session_uuid_def trim_def is_ws_def)
  have f: "onAsk_settle ''m2'' 2 (ragAnswer bad_backend sent_request) sending_state sending_storage =
      (fst (onAsk_settle ''m2'' 2 (ragAnswer bad_backend sent_request) sending_state sending_storage),
       snd (onAsk_settle ''m2'' 2 (ragAnswer bad_backend sent_request) sending_state sending_storage))"
    by simp
  from failed_ask_keeps_identity [OF g asking_state_submits bad_backend_throws f]
    g asking_state_submits bad_backend_throws
  show ?thesis by blast
qed

subsection \<open>A successful ask and its sources\<close>

lemma ragAnswer_success_ids:
  "ragAnswer invoke req = Inr d \<Longrightarrow> isValidUuid (session_id d) \<and> isValidUuid (thread_id d)"
  by (auto simp add: ragAnswer_def ragAnswer_check_def split: option.splits payload.splits if_splits)

lemma onAsk_settle_success:
  assumes ids: "isValidUuid (session_id d)" "isValidUuid (thread_id d)"
    and s_ok: "accepts ls LS_SESSION (LsString (str_of (session_id d)))"
    and t_ok: "accepts ls LS_THREAD (LsString (str_of (thread_id d)))"
  shows "onAsk_settle uuid now (Inr d) st ls =
     (st\<lparr>sessionId := str_of (session_id d), threadId := Some (str_of (thread_id d)),
         messages := messages st @ [assistantMsg uuid now d], loading := False\<rparr>,
      saveMessages (messages st @ [assistantMsg uuid now d])
        (ls\<lparr>session_item := Some (str_of (session_id d)),
            thread_item := Some (str_of (thread_id d))\<rparr>))"
proof -
  from isValidUuid_JStr [OF ids(2)] have ne: "str_of (thread_id d) \<noteq> []" by auto
  show ?thesis
    using s_ok t_ok ne
    by (simp add: onAsk_settle_def setItem_session_def saveThreadId_def setItem_thread_def Let_def)
qed

lemma capped_views:
  "take 5 (dedupeSources (take 8 (dedupeSources xs))) = take 5 (dedupeSources xs)"
  "take 8 (dedupeSources (take 8 (dedupeSources xs))) = take 8 (dedupeSources xs)"
  by (simp_all add: dedupeSources_take)

lemma find_appended:
  "k \<notin> msg_id ` set ms \<Longrightarrow> msg_id m = k \<Longrightarrow> find (\<lambda>x. msg_id x = k) (ms @ [m]) = Some m"
  by (induction ms) auto

lemma nine_keys: "map sourceKey nine_sources =
   [''wiki/forge'', ''wiki/shore'', ''wiki/boat'', ''wiki/ore'', ''wiki/coal'',
        ''wiki/kiln'', ''wiki/smelter'', ''wiki/anvil'', ''wiki/troll'']"
  by (simp add: nine_sources_def sourceKey_def or_else_def get_prop_def trim_def is_ws_def)

lemma dedupe_nine: "dedupeSources nine_sources = nine_sources"
proof -
  have "distinct (map sourceKey nine_sources)"
    unfolding nine_keys by simp
  then show ?thesis
    by (simp add: dedupeSources_keep_first keep_first_fixed)
qed

lemma good_backend_returns: "ragAnswer good_backend sent_request = Inr good_reply"
  using session_uuid_valid thread_uuid_valid
  by (simp add: ragAnswer_def good_backend_def ragAnswer_check_def good_reply_def)

text \<open>
  C1, as stated, fails: of an answer with nine sources of nine different keys, the
  message appended to the log holds eight.
\<close>

theorem stored_sources_full_counterexample:
  "ragAnswer good_backend sent_request = Inr good_reply \<and>
   length (dedupeSources (reply_sources good_reply)) = 9 \<and>
   map (\<lambda>m. map_option length (sources m))
     (messages (fst (onAsk_settle ''m2'' 2 (ragAnswer good_backend sent_request)
        sending_state sending_storage))) = [None, Some 8] \<and>
   sources (last (messages (fst (onAsk_settle ''m2'' 2 (ragAnswer good_backend sent_request)
        sending_state sending_storage)))) \<noteq> Some (dedupeSources (reply_sources good_reply))"
proof -
  have ids: "isValidUuid (session_id good_reply)" "isValidUuid (thread_id good_reply)"
    using session_uuid_valid thread_uuid_valid by (simp_all add: good_reply_def)
  have acc: "accepts sending_storage LS_SESSION (LsString (str_of (session_id good_reply)))"
     "accepts sending_storage LS_THREAD (LsString (str_of (thread_id good_reply)))"
    by (simp_all add: sending_storage_def)
  have srcs: "reply_sources good_reply = nine_sources"
    by (simp add: reply_sources_def good_reply_def)
  have len: "length nine_sources = 9" by (simp add: nine_sources_def)
  show ?thesis
    unfolding good_backend_returns onAsk_settle_success [OF ids acc]
    using len
    by (simp add: assistantMsg_def srcs dedupe_nine sending_state_def forge_question_def)
qed


text \<open>
  C1, amended. When the gateway returns an answer and the browser takes the writes of the
  two identifiers, one assistant message is appended to the log. Its sources are the
  first eight records of the deduplicated sources of the answer: all of them when there
  are at most eight, and the records after the eighth are not in the log. The line under
  the message shows the first five of the deduplicated sources, and the detail view of
  the message its stored sources, which are the first eight. The stored log is the log
  in memory when the browser takes that write.
\<close>

theorem stored_sources_first_eight:
  assumes returned: "ragAnswer invoke req = Inr d"
    and s_ok: "accepts ls LS_SESSION (LsString (str_of (session_id d)))"
    and t_ok: "accepts ls LS_THREAD (LsString (str_of (thread_id d)))"
    and settled: "onAsk_settle uuid now (ragAnswer invoke req) st ls = (st', ls')"
  shows "messages st' = messages st @ [assistantMsg uuid now d] \<and>
     sources (assistantMsg uuid now d) = Some (take 8 (dedupeSources (reply_sources d))) \<and>
     (length (dedupeSources (reply_sources d)) \<le> 8 \<longrightarrow>
        sources (assistantMsg uuid now d) = Some (dedupeSources (reply_sources d))) \<and>
     msgSources (assistantMsg uuid now d) = take 5 (dedupeSources (reply_sources d)) \<and>
     (uuid \<noteq> [] \<and> uuid \<notin> msg_id ` set (messages st) \<longrightarrow>
        activeSources (st'\<lparr>sourcesForMessageId := Some uuid\<rparr>) =
          take 8 (dedupeSources (reply_sources d))) \<and>
     loadMessages ls' =
       (if accepts ls LS_MESSAGES (LsLog (messages st')) then messages st' else loadMessages ls)"
proof -
  note ids = ragAnswer_success_ids [OF returned]
  from settled have st': "st' = st\<lparr>sessionId := str_of (session_id d),
         threadId := Some (str_of (thread_id d)),
         messages := messages st @ [assistantMsg uuid now d], loading := False\<rparr>"
    and ls': "ls' = saveMessages (messages st @ [assistantMsg uuid now d])
        (ls\<lparr>session_item := Some (str_of (session_id d)),
            thread_item := Some (str_of (thread_id d))\<rparr>)"
    unfolding returned onAsk_settle_success [OF ids [THEN conjunct1] ids [THEN conjunct2] s_ok t_ok]
    by simp_all
  have log: "messages st' = messages st @ [assistantMsg uuid now d]"
    by (simp add: st')
  have stored: "sources (assistantMsg uuid now d) = Some (take 8 (dedupeSources (reply_sources d)))"
    by (simp add: assistantMsg_def)
  have inline: "msgSources (assistantMsg uuid now d) = take 5 (dedupeSources (reply_sources d))"
    by (simp add: msgSources_def sources_or_empty_def stored capped_views)
  have detail: "uuid \<noteq> [] \<and> uuid \<notin> msg_id ` set (messages st) \<longrightarrow>
        activeSources (st'\<lparr>sourcesForMessageId := Some uuid\<rparr>) =
          take 8 (dedupeSources (reply_sources d))"
  proof
    assume u: "uuid \<noteq> [] \<and> uuid \<notin> msg_id ` set (messages st)"
    have "msg_id (assistantMsg uuid now d) = uuid" by (simp add: assistantMsg_def)
    with u have "find (\<lambda>x. msg_id x = uuid) (messages st @ [assistantMsg uuid now d]) =
        Some (assistantMsg uuid now d)"
      by (simp add: find_appended)
    with u show "activeSources (st'\<lparr>sourcesForMessageId := Some uuid\<rparr>) =
          take 8 (dedupeSources (reply_sources d))"
      by (simp add: activeSources_def log sources_or_empty_def stored capped_views)
  qed
  have persisted: "loadMessages ls' =
       (if accepts ls LS_MESSAGES (LsLog (messages st')) then messages st' else loadMessages ls)"
    by (simp add: ls' log saveMessages_def setItem_messages_def loadMessages_def)
  from log stored inline detail persisted show ?thesis by simp
qed

theorem stored_sources_first_eight_witness:
  "ragAnswer good_backend sent_request = Inr good_reply \<and>
   accepts sending_storage LS_SESSION (LsString (str_of (session_id good_reply))) \<and>
   accepts sending_storage LS_THREAD (LsString (str_of (thread_id good_reply))) \<and>
   messages (fst (onAsk_settle ''m2'' 2 (ragAnswer good_backend sent_request)
        sending_state sending_storage)) = messages sending_state @ [assistantMsg ''m2'' 2 good_reply] \<and>
   sources (assistantMsg ''m2'' 2 good_reply) = Some (take 8 (dedupeSources (reply_sources good_reply))) \<and>
   msgSources (assistantMsg ''m2'' 2 good_reply) = take 5 (dedupeSources (reply_sources good_reply))"
proof -
  have acc: "accepts sending_storage LS_SESSION (LsString (str_of (session_id good_reply)))"
     "accepts sending_storage LS_THREAD (LsString (str_of (thread_id good_reply)))"
    by (simp_all add: sending_storage_def)
  have f: "onAsk_settle ''m2'' 2 (ragAnswer good_backend sent_request) sending_state sending_storage =
      (fst (onAsk_settle ''m2'' 2 (ragAnswer good_backend sent_request) sending_state sending_storage),
       snd (onAsk_settle ''m2'' 2 (ragAnswer good_backend sent_request) sending_state sending_storage))"
    by simp
  from stored_sources_first_eight [OF good_backend_returns acc f] good_backend_returns acc
  show ?thesis by blast
qed


end
